theory Spec2Isabelle
  imports Main "HOL-Library.Sublist"
begin

section \<open>Domain data\<close>

text \<open>
  The two closed enumerations of \<^verbatim>\<open>App.tsx\<close>: \<^verbatim>\<open>INTERESTS\<close> and \<^verbatim>\<open>CONCEPTS\<close>,
  in the order of the source arrays. The concepts "Hash Map" and "Binary Search"
  are written with an underscore.
\<close>

datatype Interest = Dance | Poetry | Cooking | Sports | Gaming | Music

datatype Concept = Stack | Queue | Hash_Map | Binary_Search | Recursion | Graph

definition INTERESTS :: "Interest list" where
  "INTERESTS = [Dance, Poetry, Cooking, Sports, Gaming, Music]"

definition CONCEPTS :: "Concept list" where
  "CONCEPTS = [Stack, Queue, Hash_Map, Binary_Search, Recursion, Graph]"

section \<open>The explanation generator\<close>

text \<open>
  The object literal indexed by the interest at the head of \<^verbatim>\<open>generateExplanation\<close>:
  three substitution nouns per interest.
\<close>

record flavor_rec =
  item :: string
  place :: string
  group :: string

fun flavor_table :: "Interest \<Rightarrow> flavor_rec" where
  "flavor_table Dance = \<lparr>item = ''move'', place = ''routine'', group = ''dancers''\<rparr>"
| "flavor_table Poetry = \<lparr>item = ''line'', place = ''stanza'', group = ''poems''\<rparr>"
| "flavor_table Cooking = \<lparr>item = ''step'', place = ''recipe'', group = ''ingredients''\<rparr>"
| "flavor_table Sports = \<lparr>item = ''play'', place = ''playbook'', group = ''players''\<rparr>"
| "flavor_table Gaming = \<lparr>item = ''action'', place = ''combo'', group = ''NPCs''\<rparr>"
| "flavor_table Music = \<lparr>item = ''bar'', place = ''setlist'', group = ''musicians''\<rparr>"

text \<open>The value returned by \<^verbatim>\<open>generateExplanation\<close>.\<close>

record Explanation =
  analogy :: string
  steps :: "string list"
  code :: string

text \<open>
  \<^verbatim>\<open>generateExplanation\<close>: the \<^verbatim>\<open>switch\<close> on the concept, one branch per case, each
  returning the three fields. Template literals are concatenations; a line break
  inside a template literal is the character \<open>\<newline>\<close>.
\<close>

definition generateExplanation :: "Interest \<Rightarrow> Concept \<Rightarrow> Explanation" where
  \<open>generateExplanation interest concept =
    (let flavor = flavor_table interest in
      case concept of
      Stack \<Rightarrow>
      \<lparr>analogy =
          ''A Stack is like building a '' @ place flavor @ '': you add each '' @ item flavor @ '' on top. '' @
          ''When you undo, the last '' @ item flavor @ '' you added comes off first (LIFO).'',
       steps =
         [''Push: add a '' @ item flavor @ '' to the top of the '' @ place flavor @ ''.'',
          ''Top always points to the most recent item.'',
          ''Pop: remove the top '' @ item flavor @ '' first (reverse order).'',
          ''Great for undo, back navigation, parsing.''],
       code =
          ''// Stack in TypeScript\<newline>'' @
          ''const stack: string[] = [];\<newline>'' @
          ''stack.push("'' @ item flavor @ '' A");\<newline>'' @
          ''stack.push("'' @ item flavor @ '' B");\<newline>'' @
          ''console.log(stack.pop()); // "'' @ item flavor @ '' B"\<newline>'' @
          ''console.log(stack.pop()); // "'' @ item flavor @ '' A"''\<rparr>
    | Queue \<Rightarrow>
      \<lparr>analogy =
          ''A Queue is like '' @ group flavor @ '' lining up: first in is first served (FIFO).'',
       steps =
         [''Enqueue: add to the back.'',
          ''Dequeue: remove from the front.'',
          ''Fair ordering, used in scheduling and BFS.''],
       code =
          ''// Queue in TypeScript\<newline>'' @
          ''const queue: string[] = [];\<newline>'' @
          ''queue.push("first");\<newline>'' @
          ''queue.push("second");\<newline>'' @
          ''console.log(queue.shift()); // "first"''\<rparr>
    | Hash_Map \<Rightarrow>
      \<lparr>analogy =
          ''A Hash Map is like labeled bins for your '' @ place flavor @ '': find a bin by label in O(1) average time.'',
       steps =
         [''Hash function computes a bucket index from a key.'',
          ''Handle collisions (chaining or open addressing).'',
          ''O(1) average get/set; O(n) worst-case.''],
       code =
          ''// Map in TypeScript\<newline>'' @
          ''const m = new Map<string, number>();\<newline>'' @
          ''m.set("tempo", 120);\<newline>'' @
          ''console.log(m.get("tempo")); // 120''\<rparr>
    | Binary_Search \<Rightarrow>
      \<lparr>analogy =
          ''Binary Search is like guessing a BPM by halving ranges: check middle, then discard half.'',
       steps =
         [''Requires a sorted array.'',
          ''Pick middle, compare target.'',
          ''Keep the half that can contain the target.''],
       code =
          ''function bsearch(a: number[], x: number) {\<newline>'' @
          ''  let l = 0, r = a.length - 1;\<newline>'' @
          ''  while (l <= r) {\<newline>'' @
          ''    const mid = (l + r) >> 1;\<newline>'' @
          ''    if (a[mid] === x) return mid;\<newline>'' @
          ''    if (a[mid] < x) l = mid + 1; else r = mid - 1;\<newline>'' @
          ''  }\<newline>'' @
          ''  return -1;\<newline>'' @
          ''}''\<rparr>
    | Recursion \<Rightarrow>
      \<lparr>analogy =
          ''Recursion is like repeating a motif in a '' @ place flavor @ '': each call tackles a smaller version until a base case.'',
       steps =
         [''Define base case.'',
          ''Make progress toward base.'',
          ''Trust the function to solve smaller subproblems.''],
       code =
          ''function factorial(n: number): number {\<newline>'' @
          ''  if (n <= 1) return 1;        // base case\<newline>'' @
          ''  return n * factorial(n - 1); // recursive step\<newline>'' @
          ''}''\<rparr>
    | Graph \<Rightarrow>
      \<lparr>analogy =
          ''A Graph connects '' @ group flavor @ '' with relationships (edges). Explore paths, cycles, and communities.'',
       steps =
         [''Nodes (vertices) + edges (directed/undirected).'',
          ''DFS explores depth-first; BFS explores breadth-first.'',
          ''Used in maps, social networks, dependency graphs.''],
       code =
          ''const g: Record<string, string[]> = {\<newline>'' @
          ''  A: ["B","C"], B:["D"], C:["D"], D:[]\<newline>'' @
          ''};\<newline>'' @
          ''// BFS from A\<newline>'' @
          ''function bfs(start: string) {\<newline>'' @
          ''  const q = [start], seen = new Set([start]);\<newline>'' @
          ''  while (q.length) {\<newline>'' @
          ''    const v = q.shift()!;\<newline>'' @
          ''    for (const n of g[v]) if (!seen.has(n)) { seen.add(n); q.push(n); }\<newline>'' @
          ''  }\<newline>'' @
          ''  return seen;\<newline>'' @
          ''}''\<rparr>)\<close>

section \<open>Array slicing\<close>

text \<open>
  \<^verbatim>\<open>Array.prototype.slice(start, end)\<close>: a negative index counts from the end, both
  indices are clamped to the array, and an absent \<^verbatim>\<open>end\<close> is the length. The result
  is empty when the clamped end is not after the clamped start.
\<close>

definition slice_index :: "nat \<Rightarrow> int \<Rightarrow> nat" where
  "slice_index n i = (if i < 0 then nat (max (int n + i) 0) else nat (min i (int n)))"

definition slice :: "'a list \<Rightarrow> int \<Rightarrow> int option \<Rightarrow> 'a list" where
  "slice xs start fin =
    (let k = slice_index (length xs) start;
         final = (case fin of None \<Rightarrow> length xs | Some e \<Rightarrow> slice_index (length xs) e)
     in take (final - k) (drop k xs))"

section \<open>The application state and its handlers\<close>

text \<open>
  The four \<^verbatim>\<open>useState\<close> cells of \<^verbatim>\<open>App\<close>. \<^verbatim>\<open>null\<close> is \<open>None\<close>.
\<close>

record app_state =
  interest :: "Interest option"
  concept :: "Concept option"
  stack :: "string list"
  queue :: "string list"

definition init_state :: app_state where
  "init_state = \<lparr>interest = None, concept = None, stack = [], queue = []\<rparr>"

text \<open>The memoised explanation: present only when both selections are.\<close>

definition exp :: "app_state \<Rightarrow> Explanation option" where
  "exp s =
    (case interest s of
       None \<Rightarrow> None
     | Some i \<Rightarrow> (case concept s of None \<Rightarrow> None | Some c \<Rightarrow> Some (generateExplanation i c)))"

text \<open>The record \<^verbatim>\<open>map\<close> inside \<^verbatim>\<open>demoItems\<close>, and \<^verbatim>\<open>demoItems\<close> itself.\<close>

fun demoItems_map :: "Interest \<Rightarrow> string" where
  "demoItems_map Dance = ''Move''"
| "demoItems_map Poetry = ''Line''"
| "demoItems_map Cooking = ''Step''"
| "demoItems_map Sports = ''Play''"
| "demoItems_map Gaming = ''Action''"
| "demoItems_map Music = ''Bar''"

definition demoItems :: "Interest option \<Rightarrow> string list" where
  "demoItems i =
    (case i of
       None \<Rightarrow> [''Item A'', ''Item B'', ''Item C'', ''Item D'']
     | Some v \<Rightarrow>
         (let base = demoItems_map v
          in [base @ '' A'', base @ '' B'', base @ '' C'', base @ '' D'']))"

definition canVisualize :: "app_state \<Rightarrow> bool" where
  "canVisualize s = (concept s = Some Stack \<or> concept s = Some Queue)"

text \<open>
  The \<^verbatim>\<open>onClick\<close> bodies. Each is a function of the state; the functional updates
  \<^verbatim>\<open>setStack((s) => ...)\<close> and \<^verbatim>\<open>setQueue((q) => ...)\<close> read the current sequence.
  The index \<^verbatim>\<open>s.length % demoItems.length\<close> is below the length of \<^verbatim>\<open>demoItems\<close>
  (lemma \<open>demo_index_in_range\<close>), so the read is never out of range.
\<close>

definition selectInterest :: "Interest \<Rightarrow> app_state \<Rightarrow> app_state" where
  "selectInterest i s = s\<lparr>interest := Some i, concept := None, stack := [], queue := []\<rparr>"

definition selectConcept :: "Concept \<Rightarrow> app_state \<Rightarrow> app_state" where
  "selectConcept c s = s\<lparr>concept := Some c, stack := [], queue := []\<rparr>"

definition push :: "app_state \<Rightarrow> app_state" where
  "push s =
    s\<lparr>stack := stack s @
       [demoItems (interest s) ! (length (stack s) mod length (demoItems (interest s)))]\<rparr>"

definition pop :: "app_state \<Rightarrow> app_state" where
  "pop s = s\<lparr>stack := slice (stack s) 0 (Some (- 1))\<rparr>"

definition enqueue :: "app_state \<Rightarrow> app_state" where
  "enqueue s =
    s\<lparr>queue := queue s @
       [demoItems (interest s) ! (length (queue s) mod length (demoItems (interest s)))]\<rparr>"

definition dequeue :: "app_state \<Rightarrow> app_state" where
  "dequeue s = s\<lparr>queue := slice (queue s) 1 None\<rparr>"

definition reset :: "app_state \<Rightarrow> app_state" where
  "reset s = s\<lparr>stack := [], queue := []\<rparr>"

text \<open>
  The user's events. A control can be clicked only when it is rendered and not
  disabled: the interest buttons always; the concept buttons once an interest is
  set; the demo controls inside \<^verbatim>\<open>interest && concept && (...)\<close> and
  \<^verbatim>\<open>canVisualize\<close>, Push and Pop when the concept is Stack, Enqueue and Dequeue
  otherwise; Pop and Dequeue are disabled on an empty sequence. An event whose
  control is not available changes nothing.
\<close>

datatype event =
  SelectInterest Interest
| SelectConcept Concept
| Push
| Pop
| Enqueue
| Dequeue
| Reset

definition demo_shown :: "app_state \<Rightarrow> bool" where
  "demo_shown s = (interest s \<noteq> None \<and> concept s \<noteq> None \<and> canVisualize s)"

fun enabled :: "app_state \<Rightarrow> event \<Rightarrow> bool" where
  "enabled s (SelectInterest i) = True"
| "enabled s (SelectConcept c) = (interest s \<noteq> None)"
| "enabled s Push = (demo_shown s \<and> concept s = Some Stack)"
| "enabled s Pop = (demo_shown s \<and> concept s = Some Stack \<and> stack s \<noteq> [])"
| "enabled s Enqueue = (demo_shown s \<and> concept s \<noteq> Some Stack)"
| "enabled s Dequeue = (demo_shown s \<and> concept s \<noteq> Some Stack \<and> queue s \<noteq> [])"
| "enabled s Reset = demo_shown s"

fun handler :: "event \<Rightarrow> app_state \<Rightarrow> app_state" where
  "handler (SelectInterest i) = selectInterest i"
| "handler (SelectConcept c) = selectConcept c"
| "handler Push = push"
| "handler Pop = pop"
| "handler Enqueue = enqueue"
| "handler Dequeue = dequeue"
| "handler Reset = reset"

definition step :: "app_state \<Rightarrow> event \<Rightarrow> app_state" where
  "step s e = (if enabled s e then handler e s else s)"

definition run :: "app_state \<Rightarrow> event list \<Rightarrow> app_state" where
  "run s es = foldl step s es"

section \<open>Ghost counters and sample inputs\<close>

text \<open>
  The source keeps no append counter. To state what a counter would say, the
  events performed on each sequence are counted beside the state: appends and
  removals that were enabled, since the last event that empties the sequences
  (selecting an interest, selecting a concept, Reset). The counters never
  influence the state.
\<close>

record counters =
  stack_appends :: nat
  stack_removals :: nat
  queue_appends :: nat
  queue_removals :: nat

definition zero_counters :: counters where
  "zero_counters =
    \<lparr>stack_appends = 0, stack_removals = 0, queue_appends = 0, queue_removals = 0\<rparr>"

fun count_event :: "event \<Rightarrow> counters \<Rightarrow> counters" where
  "count_event (SelectInterest i) k = zero_counters"
| "count_event (SelectConcept c) k = zero_counters"
| "count_event Push k = k\<lparr>stack_appends := Suc (stack_appends k)\<rparr>"
| "count_event Pop k = k\<lparr>stack_removals := Suc (stack_removals k)\<rparr>"
| "count_event Enqueue k = k\<lparr>queue_appends := Suc (queue_appends k)\<rparr>"
| "count_event Dequeue k = k\<lparr>queue_removals := Suc (queue_removals k)\<rparr>"
| "count_event Reset k = zero_counters"

definition counted_step :: "app_state \<times> counters \<Rightarrow> event \<Rightarrow> app_state \<times> counters" where
  "counted_step sk e =
    (step (fst sk) e, if enabled (fst sk) e then count_event e (snd sk) else snd sk)"

definition counted_run :: "event list \<Rightarrow> app_state \<times> counters" where
  "counted_run es = foldl counted_step (init_state, zero_counters) es"

definition counters_agree :: "app_state \<times> counters \<Rightarrow> bool" where
  "counters_agree sk =
    (length (stack (fst sk)) + stack_removals (snd sk) = stack_appends (snd sk)
     \<and> length (queue (fst sk)) + queue_removals (snd sk) = queue_appends (snd sk))"

text \<open>Event sequences and a state used as concrete inputs below.\<close>

definition removal_trace :: "event list" where
  "removal_trace = [SelectInterest Music, SelectConcept Stack, Push, Push, Pop]"

definition append_trace :: "event list" where
  "append_trace = [SelectInterest Music, SelectConcept Stack, Push, Push]"

definition scenario_A :: "event list" where
  "scenario_A = [SelectInterest Music, SelectConcept Stack, Push, Push, Push, Push, Push]"

definition demo_state :: app_state where
  "demo_state =
    \<lparr>interest = Some Sports, concept = Some Queue,
     stack = [''Play A'', ''Play B''], queue = [''Play A'', ''Play B'', ''Play C'']\<rparr>"

section \<open>Basic facts\<close>

lemma INTERESTS_closed: "set INTERESTS = UNIV \<and> distinct INTERESTS \<and> length INTERESTS = 6"
proof -
  have "x \<in> set INTERESTS" for x
    by (cases x) (simp_all add: INTERESTS_def)
  then show ?thesis
    by (auto simp: INTERESTS_def)
qed

lemma CONCEPTS_closed: "set CONCEPTS = UNIV \<and> distinct CONCEPTS \<and> length CONCEPTS = 6"
proof -
  have "x \<in> set CONCEPTS" for x
    by (cases x) (simp_all add: CONCEPTS_def)
  then show ?thesis
    by (auto simp: CONCEPTS_def)
qed

lemma length_demoItems: "length (demoItems i) = 4"
  by (cases i) (simp_all add: demoItems_def Let_def)

lemma demo_index_in_range: "n mod length (demoItems i) < length (demoItems i)"
  by (simp add: length_demoItems)

lemma slice_pop: "slice xs 0 (Some (- 1)) = butlast xs"
proof -
  have "nat (max (int (length xs) + (- 1)) 0) = length xs - 1"
    by arith
  then show ?thesis
    by (simp add: slice_def slice_index_def butlast_conv_take)
qed

lemma slice_dequeue: "slice xs 1 None = tl xs"
  by (cases xs) (simp_all add: slice_def slice_index_def)

lemma push_stack:
  "stack (push s) = stack s @ [demoItems (interest s) ! (length (stack s) mod 4)]"
  by (simp add: push_def length_demoItems)

lemma enqueue_queue:
  "queue (enqueue s) = queue s @ [demoItems (interest s) ! (length (queue s) mod 4)]"
  by (simp add: enqueue_def length_demoItems)

lemma pop_stack: "stack (pop s) = butlast (stack s)"
  by (simp add: pop_def slice_pop)

lemma dequeue_queue: "queue (dequeue s) = tl (queue s)"
  by (simp add: dequeue_def slice_dequeue)

lemma Suc_length_butlast: "xs \<noteq> [] \<Longrightarrow> Suc (length (butlast xs)) = length xs"
  by (cases xs rule: rev_cases) simp_all

lemma Suc_length_tl: "xs \<noteq> [] \<Longrightarrow> Suc (length (tl xs)) = length xs"
  by (cases xs) simp_all

lemma length_butlast_removed:
  "xs \<noteq> [] \<Longrightarrow> Suc (length (butlast xs) + r) = length xs + r"
  by (cases xs rule: rev_cases) simp_all

lemma length_tl_removed: "xs \<noteq> [] \<Longrightarrow> Suc (length (tl xs) + r) = length xs + r"
  by (cases xs) simp_all

subsection \<open>The counters against the sequence lengths\<close>

text \<open>
  Each sequence is as long as the appends performed on it less the removals
  performed on it, both counted since it was last emptied.
\<close>

lemma counted_step_agree:
  assumes "counters_agree sk"
  shows "counters_agree (counted_step sk e)"
proof (cases "enabled (fst sk) e")
  case False
  with assms show ?thesis
    by (simp add: counted_step_def step_def counters_agree_def)
next
  case True
  with assms show ?thesis
    by (cases e)
      (auto simp: counted_step_def step_def counters_agree_def zero_counters_def
        selectInterest_def selectConcept_def reset_def push_def enqueue_def
        pop_def dequeue_def slice_pop slice_dequeue
        length_butlast_removed length_tl_removed simp del: length_butlast length_tl)
qed

lemma counted_run_agree: "counters_agree (counted_run es)"
proof (induction es rule: rev_induct)
  case Nil
  show ?case
    by (simp add: counted_run_def counters_agree_def init_state_def zero_counters_def)
next
  case (snoc e es)
  then show ?case
    by (simp add: counted_run_def counted_step_agree)
qed

lemma fst_counted_run: "fst (counted_run es) = run init_state es"
  by (induction es rule: rev_induct) (simp_all add: counted_run_def run_def counted_step_def)

subsection \<open>The sample event sequences, evaluated\<close>

lemma run_removal_trace:
  "run init_state removal_trace =
    \<lparr>interest = Some Music, concept = Some Stack, stack = [''Bar A''], queue = []\<rparr>"
  by (simp add: run_def removal_trace_def step_def init_state_def selectInterest_def
      selectConcept_def demo_shown_def canVisualize_def push_def pop_def slice_pop
      demoItems_def)

lemma counters_removal_trace:
  "snd (counted_run removal_trace) =
    \<lparr>stack_appends = 2, stack_removals = 1, queue_appends = 0, queue_removals = 0\<rparr>"
  by (simp add: counted_run_def counted_step_def removal_trace_def step_def init_state_def
      selectInterest_def selectConcept_def demo_shown_def canVisualize_def push_def pop_def
      slice_pop demoItems_def zero_counters_def)

lemma counted_run_append_trace:
  "counted_run append_trace =
    (\<lparr>interest = Some Music, concept = Some Stack, stack = [''Bar A'', ''Bar B''], queue = []\<rparr>,
     \<lparr>stack_appends = 2, stack_removals = 0, queue_appends = 0, queue_removals = 0\<rparr>)"
  by (simp add: counted_run_def counted_step_def append_trace_def step_def init_state_def
      selectInterest_def selectConcept_def demo_shown_def canVisualize_def push_def
      demoItems_def zero_counters_def)

lemma run_scenario_A:
  "run init_state scenario_A =
    \<lparr>interest = Some Music, concept = Some Stack,
     stack = [''Bar A'', ''Bar B'', ''Bar C'', ''Bar D'', ''Bar A''], queue = []\<rparr>"
  by (simp add: run_def scenario_A_def step_def init_state_def selectInterest_def
      selectConcept_def demo_shown_def canVisualize_def push_def demoItems_def)

section \<open>The explanation generator\<close>

text \<open>
  C2: for each of the 36 pairs of an interest and a concept, \<open>generateExplanation\<close>
  returns an analogy that is not the empty string, at least two steps, and a code
  snippet that is not the empty string. The two types have exactly the six values
  of \<open>INTERESTS\<close> and \<open>CONCEPTS\<close> (lemmas \<open>INTERESTS_closed\<close>, \<open>CONCEPTS_closed\<close>).
\<close>

theorem generateExplanation_total:
  "analogy (generateExplanation i c) \<noteq> []
   \<and> 2 \<le> length (steps (generateExplanation i c))
   \<and> code (generateExplanation i c) \<noteq> []"
  by (cases c) (simp_all add: generateExplanation_def Let_def)

section \<open>The demo labels\<close>

text \<open>
  C9: with no interest selected the template is the generic list Item A, Item B,
  Item C, Item D; with an interest selected it is the base noun of that interest
  (Move, Line, Step, Play, Action, Bar) followed by a space and one of the letters
  A, B, C, D, in this order. Every list has four elements.
\<close>

theorem demoItems_template:
  "demoItems None = [''Item A'', ''Item B'', ''Item C'', ''Item D'']
   \<and> demoItems (Some Dance) = [''Move A'', ''Move B'', ''Move C'', ''Move D'']
   \<and> demoItems (Some Poetry) = [''Line A'', ''Line B'', ''Line C'', ''Line D'']
   \<and> demoItems (Some Cooking) = [''Step A'', ''Step B'', ''Step C'', ''Step D'']
   \<and> demoItems (Some Sports) = [''Play A'', ''Play B'', ''Play C'', ''Play D'']
   \<and> demoItems (Some Gaming) = [''Action A'', ''Action B'', ''Action C'', ''Action D'']
   \<and> demoItems (Some Music) = [''Bar A'', ''Bar B'', ''Bar C'', ''Bar D'']
   \<and> demoItems_map Dance = ''Move'' \<and> demoItems_map Poetry = ''Line''
   \<and> demoItems_map Cooking = ''Step'' \<and> demoItems_map Sports = ''Play''
   \<and> demoItems_map Gaming = ''Action'' \<and> demoItems_map Music = ''Bar''
   \<and> demoItems (Some i) = map (\<lambda>letter. demoItems_map i @ '' '' @ [letter]) ''ABCD''
   \<and> length (demoItems None) = 4 \<and> length (demoItems (Some i)) = 4"
  by (simp add: demoItems_def Let_def)

text \<open>
  C1, as the specification states it: the label of an append is chosen by the
  number of appends performed on the sequence since it was last emptied, so that
  removals do not move the cycle. This fails. After selecting Music and Stack,
  two pushes and one pop, the stack is Bar A and two appends have been performed;
  the next push appends Bar B, the item at the current length 1, and not Bar C,
  the item at the append count 2.
\<close>

theorem append_counter_counterexample:
  "enabled (run init_state removal_trace) Push
   \<and> stack_appends (snd (counted_run removal_trace)) = 2
   \<and> stack (step (run init_state removal_trace) Push) = [''Bar A'', ''Bar B'']
   \<and> demoItems (interest (run init_state removal_trace))
        ! (stack_appends (snd (counted_run removal_trace)) mod 4) = ''Bar C''
   \<and> stack (step (run init_state removal_trace) Push) \<noteq>
        stack (run init_state removal_trace)
          @ [demoItems (interest (run init_state removal_trace))
              ! (stack_appends (snd (counted_run removal_trace)) mod 4)]"
  by (simp add: counters_removal_trace run_removal_trace step_def demo_shown_def
      canVisualize_def push_def demoItems_def)

text \<open>
  C1, amended: an append selects the item at the current length of the sequence
  modulo 4. After any events from the initial state, that length is the number of
  appends less the number of removals performed on the sequence since it was last
  emptied. So while no removal has been performed since then, the k-th append
  (counting from 0) appends item \<open>k mod 4\<close>; this holds for the stack and for
  the queue.
\<close>

theorem append_selects_by_length:
  "stack (push s) = stack s @ [demoItems (interest s) ! (length (stack s) mod 4)]
   \<and> queue (enqueue s) = queue s @ [demoItems (interest s) ! (length (queue s) mod 4)]
   \<and> length (stack (fst (counted_run es))) + stack_removals (snd (counted_run es))
        = stack_appends (snd (counted_run es))
   \<and> length (queue (fst (counted_run es))) + queue_removals (snd (counted_run es))
        = queue_appends (snd (counted_run es))
   \<and> (stack_removals (snd (counted_run es)) = 0 \<longrightarrow>
        stack (push (fst (counted_run es))) =
          stack (fst (counted_run es))
            @ [demoItems (interest (fst (counted_run es)))
                ! (stack_appends (snd (counted_run es)) mod 4)])
   \<and> (queue_removals (snd (counted_run es)) = 0 \<longrightarrow>
        queue (enqueue (fst (counted_run es))) =
          queue (fst (counted_run es))
            @ [demoItems (interest (fst (counted_run es)))
                ! (queue_appends (snd (counted_run es)) mod 4)])"
proof -
  have "counters_agree (counted_run es)"
    by (rule counted_run_agree)
  then show ?thesis
    by (auto simp: counters_agree_def push_stack enqueue_queue)
qed

theorem append_selects_by_length_witness:
  "stack_removals (snd (counted_run append_trace)) = 0
   \<and> queue_removals (snd (counted_run append_trace)) = 0
   \<and> stack_appends (snd (counted_run append_trace)) = 2
   \<and> stack (push (fst (counted_run append_trace))) = [''Bar A'', ''Bar B'', ''Bar C'']
   \<and> queue (enqueue (fst (counted_run append_trace))) = [''Bar A'']"
  using append_selects_by_length [of init_state append_trace]
  by (simp add: counted_run_append_trace demoItems_def)

section \<open>The sequence operations\<close>

text \<open>
  C3: Push and Enqueue make their sequence longer by exactly one, and the old
  sequence is the new one without its last element. On a stack that is not empty
  Pop removes exactly the last element; on a queue that is not empty Dequeue
  removes exactly the first element; each makes the sequence shorter by exactly
  one. A Pop directly after a Push gives the stack back.
\<close>

theorem append_and_remove_ends:
  "length (stack (push s)) = length (stack s) + 1
   \<and> butlast (stack (push s)) = stack s
   \<and> length (queue (enqueue s)) = length (queue s) + 1
   \<and> butlast (queue (enqueue s)) = queue s
   \<and> stack (pop (push s)) = stack s
   \<and> (stack s \<noteq> [] \<longrightarrow>
        stack s = stack (pop s) @ [last (stack s)]
        \<and> length (stack (pop s)) + 1 = length (stack s))
   \<and> (queue s \<noteq> [] \<longrightarrow>
        queue s = hd (queue s) # queue (dequeue s)
        \<and> length (queue (dequeue s)) + 1 = length (queue s))"
  by (simp add: push_stack enqueue_queue pop_stack dequeue_queue Suc_length_butlast
      Suc_length_tl del: length_butlast length_tl)

theorem append_and_remove_ends_witness:
  "stack demo_state \<noteq> [] \<and> queue demo_state \<noteq> []
   \<and> stack (pop demo_state) = [''Play A'']
   \<and> last (stack demo_state) = ''Play B''
   \<and> queue (dequeue demo_state) = [''Play B'', ''Play C'']
   \<and> hd (queue demo_state) = ''Play A''
   \<and> length (stack (push demo_state)) = 3"
  using append_and_remove_ends [of demo_state]
  by (simp add: demo_state_def)

text \<open>
  C4: on an empty stack the Pop handler returns the state unchanged, and the Pop
  event (its button is disabled) changes nothing; the same for Dequeue on an empty
  queue. The handlers have no failing branch: \<open>slice\<close> of an empty array is the
  empty array.
\<close>

theorem remove_on_empty_noop:
  "(stack s = [] \<longrightarrow> pop s = s \<and> step s Pop = s)
   \<and> (queue s = [] \<longrightarrow> dequeue s = s \<and> step s Dequeue = s)"
  by (simp add: pop_def dequeue_def slice_pop slice_dequeue step_def)

theorem remove_on_empty_noop_witness:
  "stack init_state = [] \<and> queue init_state = []
   \<and> pop init_state = init_state \<and> step init_state Pop = init_state
   \<and> dequeue init_state = init_state \<and> step init_state Dequeue = init_state"
  using remove_on_empty_noop [of init_state]
  by (simp add: init_state_def)

text \<open>
  C6: whatever the two sequences hold, after Reset both are empty, with length 0.
\<close>

theorem reset_empties_both:
  "stack (reset s) = [] \<and> queue (reset s) = []
   \<and> length (stack (reset s)) = 0 \<and> length (queue (reset s)) = 0"
  by (simp add: reset_def)

text \<open>
  C10: Push and Pop leave the queue as it is, Enqueue and Dequeue leave the stack
  as it is, and none of Push, Pop, Enqueue, Dequeue and Reset changes the selected
  interest or concept. This is stated for the handlers and for the events.
\<close>

theorem demo_operations_frame:
  "queue (push s) = queue s \<and> queue (pop s) = queue s
   \<and> stack (enqueue s) = stack s \<and> stack (dequeue s) = stack s
   \<and> interest (push s) = interest s \<and> concept (push s) = concept s
   \<and> interest (pop s) = interest s \<and> concept (pop s) = concept s
   \<and> interest (enqueue s) = interest s \<and> concept (enqueue s) = concept s
   \<and> interest (dequeue s) = interest s \<and> concept (dequeue s) = concept s
   \<and> interest (reset s) = interest s \<and> concept (reset s) = concept s
   \<and> queue (step s Push) = queue s \<and> queue (step s Pop) = queue s
   \<and> stack (step s Enqueue) = stack s \<and> stack (step s Dequeue) = stack s
   \<and> interest (step s Push) = interest s \<and> concept (step s Push) = concept s
   \<and> interest (step s Pop) = interest s \<and> concept (step s Pop) = concept s
   \<and> interest (step s Enqueue) = interest s \<and> concept (step s Enqueue) = concept s
   \<and> interest (step s Dequeue) = interest s \<and> concept (step s Dequeue) = concept s
   \<and> interest (step s Reset) = interest s \<and> concept (step s Reset) = concept s"
  by (simp add: step_def push_def pop_def enqueue_def dequeue_def reset_def)

section \<open>Selections\<close>

text \<open>
  C5: from any state, selecting an interest sets the concept to none and empties
  both sequences; selecting a concept while an interest is set empties both
  sequences (and keeps the interest). Every reachable state is among the states
  quantified over.
\<close>

theorem selection_clears_sequences:
  "interest (step s (SelectInterest i)) = Some i
   \<and> concept (step s (SelectInterest i)) = None
   \<and> stack (step s (SelectInterest i)) = []
   \<and> queue (step s (SelectInterest i)) = []
   \<and> (interest s \<noteq> None \<longrightarrow>
        interest (step s (SelectConcept c)) = interest s
        \<and> concept (step s (SelectConcept c)) = Some c
        \<and> stack (step s (SelectConcept c)) = []
        \<and> queue (step s (SelectConcept c)) = [])"
  by (simp add: step_def selectInterest_def selectConcept_def)

theorem selection_clears_sequences_witness:
  "interest demo_state \<noteq> None
   \<and> concept (step demo_state (SelectInterest Music)) = None
   \<and> stack (step demo_state (SelectInterest Music)) = []
   \<and> queue (step demo_state (SelectInterest Music)) = []
   \<and> stack (step demo_state (SelectConcept Graph)) = []
   \<and> queue (step demo_state (SelectConcept Graph)) = []"
  using selection_clears_sequences [of demo_state Music Graph]
  by (simp add: demo_state_def)

section \<open>An end-to-end scenario\<close>

text \<open>
  C8: from the initial state, select Music, select Stack and push five times. The
  explanation shown is that of Music and Stack, and its analogy contains "bar";
  the stack is Bar A, Bar B, Bar C, Bar D, Bar A; one Pop more leaves Bar A, Bar B,
  Bar C, Bar D.
\<close>

theorem scenario_A_music_stack:
  "exp (run init_state scenario_A) = Some (generateExplanation Music Stack)
   \<and> sublist ''bar'' (analogy (generateExplanation Music Stack))
   \<and> stack (run init_state scenario_A) = [''Bar A'', ''Bar B'', ''Bar C'', ''Bar D'', ''Bar A'']
   \<and> stack (run init_state (scenario_A @ [Pop])) = [''Bar A'', ''Bar B'', ''Bar C'', ''Bar D'']"
proof -
  have a: "sublist ''bar'' (analogy (generateExplanation Music Stack))"
    by (simp add: generateExplanation_def sublist_Cons_right)
  have p: "stack (run init_state (scenario_A @ [Pop])) = [''Bar A'', ''Bar B'', ''Bar C'', ''Bar D'']"
    using run_scenario_A
    by (simp add: run_def step_def demo_shown_def canVisualize_def pop_def slice_pop)
  show ?thesis
    using a p by (simp add: run_scenario_A exp_def)
qed

end
